theory Spec2Isabelle
  imports Complex_Main
begin

section \<open>Data model of \<^verbatim>\<open>src/App.tsx\<close>\<close>

text \<open>
  The component \<^verbatim>\<open>App\<close> keeps its state in React state cells and in refs. Every handler
  of the source is modelled as a function from the state before to the state after. The
  browser objects the handlers act on (media tracks, timers, connections, audio source
  nodes) are part of the same record, so that what a handler does to them can be stated.
  Times are the \<^verbatim>\<open>number\<close>s of the Web Audio clock, taken as exact reals.
\<close>

text \<open>
  \<^verbatim>\<open>ConnectionStatus\<close> and \<^verbatim>\<open>Message\<close> are imported from \<^verbatim>\<open>./types\<close>; the members
  below are the ones \<^verbatim>\<open>App.tsx\<close> uses (lines 13, 41, 50, 75, 85, 155, 186).
\<close>

datatype ConnectionStatus = DISCONNECTED | CONNECTING | CONNECTED | ERROR

datatype Role = User | Assistant

datatype CaptureMode = Screen | Camera

record Message =
  role :: Role
  msg_text :: string
  timestamp :: nat

text \<open>A thrown JavaScript value: its constructor name and its \<^verbatim>\<open>message\<close>.\<close>

datatype error = Error string | TypeError string | DOMException string string

fun message :: "error \<Rightarrow> string" where
  "message (Error m) = m"
| "message (TypeError m) = m"
| "message (DOMException n m) = m"

text \<open>A \<^verbatim>\<open>MediaStream\<close> is the list of its tracks; a track, a timer, a connection and an
  audio source node are identified by a number.\<close>

type_synonym MediaStream = "nat list"

record Media =
  data :: string
  mimeType :: string

text \<open>One call \<^verbatim>\<open>source.start(when)\<close> with the duration of the buffer it plays.\<close>

record Segment =
  seg_source :: nat
  seg_start :: real
  seg_duration :: real


text \<open>The ready states of a connection, as \<^verbatim>\<open>getReadyState()\<close> reports them.\<close>

definition CONNECTING_STATE :: nat where "CONNECTING_STATE = 0"
definition OPEN :: nat where "OPEN = 1"
definition CLOSING :: nat where "CLOSING = 2"
definition CLOSED :: nat where "CLOSED = 3"

record App =
  \<comment> \<open>React state, lines 13-19\<close>
  status :: ConnectionStatus
  messages :: "Message list"
  isCapturing :: bool
  isSpeaking :: bool
  errorMsg :: "string option"
  mode :: CaptureMode
  userTranscript :: string
  \<comment> \<open>refs, lines 21-33\<close>
  videoSrcObject :: "MediaStream option"
  sessionRef :: "nat option"
  sessionPromiseRef :: "(error + nat) option"
  deepgramConnectionRef :: "nat option"
  inputAudioContextRef :: bool
  outputAudioContextRef :: bool
  nextStartTimeRef :: real
  sourcesRef :: "nat list"
  micStreamRef :: "MediaStream option"
  captureIntervalRef :: "nat option"
  \<comment> \<open>browser objects\<close>
  liveTracks :: "nat set"
  activeTimers :: "nat set"
  readyState :: "nat \<Rightarrow> nat"
  faulty :: "nat set"
  playing :: "nat set"
  scheduled :: "Segment list"
  nextSource :: nat
  agentSent :: "(nat \<times> Media) list"
  deepgramSent :: "(nat \<times> real list) list"

text \<open>
  \<^verbatim>\<open>videoSrcObject\<close> is \<^verbatim>\<open>videoRef.current.srcObject\<close> (the video element is always
  rendered, line 261). \<^verbatim>\<open>sessionPromiseRef\<close> holds a settled promise: \<open>Inr c\<close> resolved with
  session \<open>c\<close>, \<open>Inl e\<close> rejected with \<open>e\<close>. \<^verbatim>\<open>outputAudioContextRef\<close> stands for both
  \<^verbatim>\<open>outputAudioContextRef\<close> and \<^verbatim>\<open>audioOutputNodeRef\<close>, which are created together
  (lines 103-107). \<open>liveTracks\<close> are the tracks not yet stopped, \<open>activeTimers\<close> the
  intervals not yet cleared, \<open>faulty\<close> the connections whose \<^verbatim>\<open>close()\<close> or
  \<^verbatim>\<open>finish()\<close> throws, \<open>playing\<close> the source nodes started and neither ended nor stopped,
  \<open>scheduled\<close> the calls of \<^verbatim>\<open>source.start\<close> in order, and \<open>agentSent\<close>, \<open>deepgramSent\<close>
  what was handed to \<^verbatim>\<open>sendRealtimeInput\<close> and to \<^verbatim>\<open>send\<close>.
\<close>

definition initialApp :: App where
  "initialApp =
     \<lparr> status = DISCONNECTED, messages = [], isCapturing = False, isSpeaking = False,
       errorMsg = None, mode = Screen, userTranscript = [],
       videoSrcObject = None, sessionRef = None, sessionPromiseRef = None,
       deepgramConnectionRef = None, inputAudioContextRef = False,
       outputAudioContextRef = False, nextStartTimeRef = 0, sourcesRef = [],
       micStreamRef = None, captureIntervalRef = None,
       liveTracks = {}, activeTimers = {}, readyState = (\<lambda>c. CLOSED), faulty = {},
       playing = {}, scheduled = [], nextSource = 0, agentSent = [], deepgramSent = [] \<rparr>"

section \<open>The message log: \<^verbatim>\<open>addMessage\<close>, lines 41-52\<close>

text \<open>\<^verbatim>\<open>xs.slice(-k)\<close>: the last \<open>k\<close> elements, all of them when there are fewer.\<close>

definition slice_last :: "nat \<Rightarrow> 'a list \<Rightarrow> 'a list" where
  "slice_last k xs = drop (length xs - k) xs"

text \<open>
  \<^verbatim>\<open>prev[prev.length - 1]\<close> is \<^verbatim>\<open>undefined\<close> on the empty log, and \<^verbatim>\<open>last && ...\<close> is
  then false. \<open>now\<close> is the reading of \<^verbatim>\<open>Date.now()\<close>.
\<close>

definition addMessage :: "Role \<Rightarrow> string \<Rightarrow> nat \<Rightarrow> Message list \<Rightarrow> Message list" where
  "addMessage r t now prev =
     (if t = [] then prev
      else if prev \<noteq> [] \<and> role (last prev) = r \<and> r = Assistant
      then slice_last 5
             (prev[length prev - 1 := (last prev)\<lparr>msg_text := msg_text (last prev) @ t\<rparr>])
      else slice_last 5 (prev @ [\<lparr>role = r, msg_text = t, timestamp = now\<rparr>]))"

text \<open>A run of appends, each with its role, its text and its clock reading.\<close>

fun addMessages :: "(Role \<times> string \<times> nat) list \<Rightarrow> Message list \<Rightarrow> Message list" where
  "addMessages [] prev = prev"
| "addMessages ((r, t, now) # rest) prev = addMessages rest (addMessage r t now prev)"

text \<open>
  The log as it would be with no truncation: if the role is assistant and the last
  stored entry's role is assistant, the text is concatenated into that entry in place;
  otherwise a new entry is appended; with the guard of line 42 and without \<^verbatim>\<open>slice(-5)\<close>. It
  serves to say which entries the truncated log retains.
\<close>

definition untruncated_addMessage ::
    "Role \<Rightarrow> string \<Rightarrow> nat \<Rightarrow> Message list \<Rightarrow> Message list" where
  "untruncated_addMessage r t now prev =
     (if t = [] then prev
      else if prev \<noteq> [] \<and> role (last prev) = r \<and> r = Assistant
      then butlast prev @ [(last prev)\<lparr>msg_text := msg_text (last prev) @ t\<rparr>]
      else prev @ [\<lparr>role = r, msg_text = t, timestamp = now\<rparr>])"

fun untruncated_addMessages ::
    "(Role \<times> string \<times> nat) list \<Rightarrow> Message list \<Rightarrow> Message list" where
  "untruncated_addMessages [] prev = prev"
| "untruncated_addMessages ((r, t, now) # rest) prev =
     untruncated_addMessages rest (untruncated_addMessage r t now prev)"

section \<open>The transcript handler, lines 130-138\<close>

definition on_transcript :: "string \<Rightarrow> bool \<Rightarrow> bool \<Rightarrow> nat \<Rightarrow> App \<Rightarrow> App" where
  "on_transcript transcript is_final speech_final now s =
     (if transcript = [] then s
      else let s1 = s\<lparr>userTranscript := transcript\<rparr>
           in if is_final \<and> speech_final
              then s1\<lparr>messages := addMessage User transcript now (messages s1),
                      userTranscript := []\<rparr>
              else s1)"

section \<open>The playback scheduler, lines 159-183\<close>

text \<open>
  The body of the audio branch of \<^verbatim>\<open>onmessage\<close> (lines 161-174). Line 163 reads the
  transport clock \<^verbatim>\<open>ctx.currentTime\<close>; the handler then awaits the decoding of the chunk
  (line 164) and, when it resumes, starts a fresh source node at \<^verbatim>\<open>nextStartTimeRef\<close>
  (lines 165-174). The two halves are \<open>enqueue_begin\<close> and \<open>enqueue_commit\<close>; \<open>enqueue\<close>
  is a chunk whose decoding ends before the next event is handled.
\<close>

definition enqueue_begin :: "real \<Rightarrow> App \<Rightarrow> App" where
  "enqueue_begin currentTime s =
     s\<lparr>isSpeaking := True, nextStartTimeRef := max (nextStartTimeRef s) currentTime\<rparr>"

definition enqueue_commit :: "real \<Rightarrow> App \<Rightarrow> App" where
  "enqueue_commit duration s =
     s\<lparr>scheduled := scheduled s @
          [\<lparr>seg_source = nextSource s, seg_start = nextStartTimeRef s,
            seg_duration = duration\<rparr>],
       playing := insert (nextSource s) (playing s),
       nextStartTimeRef := nextStartTimeRef s + duration,
       sourcesRef := (if nextSource s \<in> set (sourcesRef s) then sourcesRef s
                      else sourcesRef s @ [nextSource s]),
       nextSource := Suc (nextSource s)\<rparr>"

definition enqueue :: "real \<Rightarrow> real \<Rightarrow> App \<Rightarrow> App" where
  "enqueue currentTime duration s = enqueue_commit duration (enqueue_begin currentTime s)"

text \<open>A run of enqueues, each with the clock reading at its arrival and its duration.\<close>

fun enqueues :: "(real \<times> real) list \<Rightarrow> App \<Rightarrow> App" where
  "enqueues [] s = s"
| "enqueues ((currentTime, duration) # rest) s = enqueues rest (enqueue currentTime duration s)"

text \<open>The \<^verbatim>\<open>ended\<close> listener of a source node, lines 168-171.\<close>

definition on_ended :: "nat \<Rightarrow> App \<Rightarrow> App" where
  "on_ended h s =
     (let rest = removeAll h (sourcesRef s)
      in s\<lparr>playing := playing s - {h}, sourcesRef := rest,
           isSpeaking := (if rest = [] then False else isSpeaking s)\<rparr>)"

text \<open>
  \<^verbatim>\<open>s.stop()\<close> on a source node. A node that is not playing any more is the case in
  which the call is taken to raise; line 179 catches whatever it raises.
\<close>

definition stop_source :: "nat \<Rightarrow> nat set \<Rightarrow> error + nat set" where
  "stop_source h p =
     (if h \<in> p then Inr (p - {h}) else Inl (DOMException ''InvalidStateError'' []))"

definition try_stop_source :: "nat \<Rightarrow> nat set \<Rightarrow> nat set" where
  "try_stop_source h p = (case stop_source h p of Inl e \<Rightarrow> p | Inr p' \<Rightarrow> p')"

text \<open>The interrupted branch, lines 178-183.\<close>

definition purge :: "App \<Rightarrow> App" where
  "purge s =
     s\<lparr>playing := fold try_stop_source (sourcesRef s) (playing s),
       sourcesRef := [], nextStartTimeRef := 0, isSpeaking := False\<rparr>"

text \<open>
  A server message as \<^verbatim>\<open>onmessage\<close> reads it. \<^verbatim>\<open>modelTurn\<close> is absent, or present
  without a \<^verbatim>\<open>parts\<close> array, or present with its parts, each given by its
  \<^verbatim>\<open>inlineData?.data\<close> (\<open>None\<close> when the part has none). A message with no
  \<^verbatim>\<open>serverContent\<close> is one with no \<^verbatim>\<open>modelTurn\<close>, no \<^verbatim>\<open>outputTranscription\<close> and
  \<^verbatim>\<open>interrupted\<close> false.
\<close>

datatype ModelTurn = NoParts | Parts "string option list"

record LiveServerMessage =
  modelTurn :: "ModelTurn option"
  outputTranscription :: "string option"
  interrupted :: bool

text \<open>
  Line 159. Every step of the chain is optional but \<^verbatim>\<open>parts[0]\<close>: on a \<^verbatim>\<open>modelTurn\<close>
  without \<^verbatim>\<open>parts\<close> it raises a \<^verbatim>\<open>TypeError\<close>; on an empty array it is \<^verbatim>\<open>undefined\<close>.
\<close>

definition base64Audio :: "LiveServerMessage \<Rightarrow> error + string option" where
  "base64Audio m =
     (case modelTurn m of
        None \<Rightarrow> Inr None
      | Some NoParts \<Rightarrow> Inl (TypeError ''Cannot read properties of undefined'')
      | Some (Parts ps) \<Rightarrow> (case ps of [] \<Rightarrow> Inr None | p # rest \<Rightarrow> Inr p))"

text \<open>Lines 177-183: the transcription text, then the interrupted branch.\<close>

definition on_message_tail :: "nat \<Rightarrow> LiveServerMessage \<Rightarrow> App \<Rightarrow> App" where
  "on_message_tail now m s =
     (let s2 = (case outputTranscription m of
                  None \<Rightarrow> s
                | Some t \<Rightarrow> s\<lparr>messages := addMessage Assistant t now (messages s)\<rparr>)
      in if interrupted m then purge s2 else s2)"

text \<open>
  The handler is an \<^verbatim>\<open>async\<close> function with one \<^verbatim>\<open>await\<close>, at line 164, so it runs in
  two turns. \<open>on_message_begin\<close> is the first: it ends by throwing (line 159), by waiting
  for the decoding of the chunk (lines 160-164), or, when there is no chunk to play, by
  running lines 177-183 to the end. \<open>on_message_resume\<close> is the second, run when the
  decoding has settled, with the duration of the decoded buffer or with what the
  rejected promise carries: a rejection leaves the handler at line 164, before lines
  165-183.
\<close>

datatype Handler = Finished | Threw error | AwaitingDecode string

definition on_message_begin ::
    "real \<Rightarrow> nat \<Rightarrow> LiveServerMessage \<Rightarrow> App \<Rightarrow> Handler \<times> App" where
  "on_message_begin currentTime now m s =
     (case base64Audio m of
        Inl e \<Rightarrow> (Threw e, s)
      | Inr None \<Rightarrow> (Finished, on_message_tail now m s)
      | Inr (Some audio) \<Rightarrow>
          if audio \<noteq> [] \<and> outputAudioContextRef s
          then (AwaitingDecode audio, enqueue_begin currentTime s)
          else (Finished, on_message_tail now m s))"

definition on_message_resume ::
    "error + real \<Rightarrow> nat \<Rightarrow> LiveServerMessage \<Rightarrow> App \<Rightarrow> error option \<times> App" where
  "on_message_resume decoded now m s =
     (case decoded of
        Inl e \<Rightarrow> (Some e, s)
      | Inr duration \<Rightarrow> (None, on_message_tail now m (enqueue_commit duration s)))"

text \<open>
  A message handled with nothing in between its two turns. \<open>decodeAudioData\<close> stands for
  \<^verbatim>\<open>decodeAudioData(decode(...))\<close> of \<^verbatim>\<open>./utils\<close>: the duration of the buffer it returns,
  or what it throws.
\<close>

definition on_message ::
    "(string \<Rightarrow> error + real) \<Rightarrow> real \<Rightarrow> nat \<Rightarrow> LiveServerMessage \<Rightarrow> App
     \<Rightarrow> error option \<times> App" where
  "on_message decodeAudioData currentTime now m s =
     (case on_message_begin currentTime now m s of
        (Finished, s') \<Rightarrow> (None, s')
      | (Threw e, s') \<Rightarrow> (Some e, s')
      | (AwaitingDecode audio, s') \<Rightarrow> on_message_resume (decodeAudioData audio) now m s')"

text \<open>
  The segments a run of enqueues adds to \<open>scheduled\<close>, and their closed form: what a run
  schedules when it starts with the clock \<open>nextStart\<close> and the source number \<open>h\<close>.
\<close>

definition new_segments :: "(real \<times> real) list \<Rightarrow> App \<Rightarrow> Segment list" where
  "new_segments cs s = drop (length (scheduled s)) (scheduled (enqueues cs s))"

fun plan :: "real \<Rightarrow> nat \<Rightarrow> (real \<times> real) list \<Rightarrow> Segment list" where
  "plan nextStart h [] = []"
| "plan nextStart h ((currentTime, duration) # rest) =
     \<lparr>seg_source = h, seg_start = max nextStart currentTime, seg_duration = duration\<rparr> #
     plan (max nextStart currentTime + duration) (Suc h) rest"

section \<open>Teardown: \<^verbatim>\<open>stopCapture\<close>, lines 54-77\<close>

text \<open>\<^verbatim>\<open>stream?.getTracks().forEach(t => t.stop())\<close> on the set of live tracks.\<close>

definition stopTracks :: "MediaStream option \<Rightarrow> nat set \<Rightarrow> nat set" where
  "stopTracks stream live = (case stream of None \<Rightarrow> live | Some ts \<Rightarrow> live - set ts)"

text \<open>
  \<^verbatim>\<open>close()\<close> of the agent session and \<^verbatim>\<open>finish()\<close> of the transcription connection:
  either call throws on a connection in \<open>faulty\<close>, and otherwise takes the connection out
  of the open state.
\<close>

definition close :: "nat \<Rightarrow> App \<Rightarrow> error + App" where
  "close c s =
     (if c \<in> faulty s then Inl (Error ''close'')
      else Inr (s\<lparr>readyState := (readyState s)(c := CLOSED)\<rparr>))"

definition finish :: "nat \<Rightarrow> App \<Rightarrow> error + App" where
  "finish c s =
     (if c \<in> faulty s then Inl (Error ''finish'')
      else Inr (s\<lparr>readyState := (readyState s)(c := CLOSING)\<rparr>))"

text \<open>Lines 73-76.\<close>

definition resetFlags :: "App \<Rightarrow> App" where
  "resetFlags s =
     s\<lparr>isCapturing := False, isSpeaking := False, status := DISCONNECTED,
       userTranscript := []\<rparr>"

text \<open>Line 55. The timer id is tested for truth, so the id 0 is not cleared.\<close>

definition clearCaptureInterval :: "App \<Rightarrow> App" where
  "clearCaptureInterval s =
     (case captureIntervalRef s of
        None \<Rightarrow> s
      | Some t \<Rightarrow> if t = 0 then s else s\<lparr>activeTimers := activeTimers s - {t}\<rparr>)"

text \<open>Lines 57-60.\<close>

definition stopMedia :: "App \<Rightarrow> App" where
  "stopMedia s =
     (let s1 = s\<lparr>liveTracks := stopTracks (micStreamRef s) (liveTracks s)\<rparr>
      in s1\<lparr>liveTracks := stopTracks (videoSrcObject s1) (liveTracks s1),
            videoSrcObject := None\<rparr>)"

text \<open>Lines 62-66: the call of \<^verbatim>\<open>close()\<close> is inside \<^verbatim>\<open>try\<close>, and what it throws is dropped.\<close>

definition closeSession :: "App \<Rightarrow> App" where
  "closeSession s =
     (case sessionRef s of
        None \<Rightarrow> s
      | Some c \<Rightarrow>
          (case close c s of Inl e \<Rightarrow> s | Inr s' \<Rightarrow> s')
            \<lparr>sessionRef := None, sessionPromiseRef := None\<rparr>)"

text \<open>
  Lines 68-71: the call of \<^verbatim>\<open>finish()\<close> is not inside \<^verbatim>\<open>try\<close>. The result is the state
  left and, when the call throws, what it throws.
\<close>

definition finishDeepgram :: "App \<Rightarrow> error option \<times> App" where
  "finishDeepgram s =
     (case deepgramConnectionRef s of
        None \<Rightarrow> (None, s)
      | Some c \<Rightarrow>
          (case finish c s of
             Inl e \<Rightarrow> (Some e, s)
           | Inr s' \<Rightarrow> (None, s'\<lparr>deepgramConnectionRef := None\<rparr>)))"

text \<open>
  The whole of \<^verbatim>\<open>stopCapture\<close>: the state the call leaves and, when the call throws, what
  it throws. Lines 73-76 are reached only when line 69 has not thrown.
\<close>

definition releaseResources :: "App \<Rightarrow> App" where
  "releaseResources s = closeSession (stopMedia (clearCaptureInterval s))"

definition stopCapture :: "App \<Rightarrow> error option \<times> App" where
  "stopCapture s =
     (case finishDeepgram (releaseResources s) of
        (Some e, s') \<Rightarrow> (Some e, s')
      | (None, s') \<Rightarrow> (None, resetFlags s'))"

section \<open>Session start: \<^verbatim>\<open>startAnalysis\<close>, lines 79-240\<close>

text \<open>The messages the source shows; letters outside ASCII are written as their UTF-8 bytes.\<close>

definition deepgramKeyMissingMsg :: string where
  "deepgramKeyMissingMsg =
     ''A chave da API Deepgram n'' @ [CHR 0xC3, CHR 0xA3] @
     ''o foi encontrada. Verifique suas vari'' @ [CHR 0xC3, CHR 0xA1] @
     ''veis de ambiente.''"

definition transcriptionErrorMsg :: string where
  "transcriptionErrorMsg =
     ''Erro na transcri'' @ [CHR 0xC3, CHR 0xA7, CHR 0xC3, CHR 0xA3] @
     ''o de voz. Verifique a chave da API Deepgram.''"

definition geminiErrorMsg :: string where
  "geminiErrorMsg = ''Conex'' @ [CHR 0xC3, CHR 0xA3] @ ''o Gemini interrompida.''"

text \<open>
  What the environment answers during one call of \<^verbatim>\<open>startAnalysis\<close>: the
  transcription key, the outcome of each media request (the stream, or what the rejected
  promise carries), the connection \<^verbatim>\<open>deepgram.listen.live\<close> returns, the outcome of
  \<^verbatim>\<open>ai.live.connect\<close>, and the id \<^verbatim>\<open>setInterval\<close> returns.
\<close>

record StartEnv =
  DEEPGRAM_API_KEY :: "string option"
  getDisplayMedia :: "error + MediaStream"
  getUserMediaVideo :: "error + MediaStream"
  getUserMediaAudio :: "error + MediaStream"
  listenLive :: nat
  connect :: "error + nat"
  setInterval :: nat

text \<open>The \<^verbatim>\<open>onopen\<close> callback, lines 154-157.\<close>

definition on_open :: "App \<Rightarrow> App" where
  "on_open s = s\<lparr>status := CONNECTED, isCapturing := True\<rparr>"

text \<open>
  The \<^verbatim>\<open>try\<close> block, lines 81-233: the state it leaves and, when it throws, what it
  throws. A stream the browser grants adds its tracks to the live ones. The session opens
  (\<^verbatim>\<open>onopen\<close>) when the promise of line 145 resolves.
\<close>

definition startAnalysis_try :: "StartEnv \<Rightarrow> App \<Rightarrow> error option \<times> App" where
  "startAnalysis_try e s0 =
     (let s1 = s0\<lparr>errorMsg := None\<rparr>
      in if DEEPGRAM_API_KEY e = None \<or> DEEPGRAM_API_KEY e = Some []
         then (Some (Error deepgramKeyMissingMsg), s1)
         else
           (let s2 = s1\<lparr>status := CONNECTING, outputAudioContextRef := True,
                        inputAudioContextRef := True\<rparr>
            in (case (if mode s2 = Screen then getDisplayMedia e else getUserMediaVideo e) of
                  Inl err \<Rightarrow> (Some err, s2)
                | Inr mediaStream \<Rightarrow>
                   (let s3 = s2\<lparr>liveTracks := liveTracks s2 \<union> set mediaStream\<rparr>
                    in (case getUserMediaAudio e of
                          Inl err \<Rightarrow> (Some err, s3)
                        | Inr micStream \<Rightarrow>
                           (let s4 = s3\<lparr>liveTracks := liveTracks s3 \<union> set micStream,
                                        micStreamRef := Some micStream\<rparr>;
                                s5 = s4\<lparr>deepgramConnectionRef := Some (listenLive e),
                                        readyState :=
                                          (readyState s4)(listenLive e := CONNECTING_STATE)\<rparr>;
                                s6 = s5\<lparr>sessionPromiseRef := Some (connect e)\<rparr>
                            in (case connect e of
                                  Inl err \<Rightarrow> (Some err, s6)
                                | Inr c \<Rightarrow>
                                   (let s7 = on_open
                                              (s6\<lparr>readyState := (readyState s6)(c := OPEN)\<rparr>);
                                        s8 = s7\<lparr>sessionRef := Some c\<rparr>;
                                        s9 = s8\<lparr>videoSrcObject := Some mediaStream\<rparr>;
                                        s10 = s9\<lparr>captureIntervalRef := Some (setInterval e),
                                                activeTimers :=
                                                  insert (setInterval e) (activeTimers s9)\<rparr>
                                    in (None, s10)))))))))"

text \<open>The whole function: the \<^verbatim>\<open>catch\<close> of lines 235-239 around the block.\<close>

definition startAnalysis :: "StartEnv \<Rightarrow> App \<Rightarrow> error option \<times> App" where
  "startAnalysis e s =
     (case startAnalysis_try e s of
        (None, s') \<Rightarrow> (None, s')
      | (Some err, s') \<Rightarrow>
          stopCapture (s'\<lparr>errorMsg := Some (message err), status := ERROR\<rparr>))"

text \<open>The agent session's \<^verbatim>\<open>onerror\<close> and \<^verbatim>\<open>onclose\<close>, lines 185-190.\<close>

definition on_error :: "App \<Rightarrow> error option \<times> App" where
  "on_error s = stopCapture (s\<lparr>status := ERROR, errorMsg := Some geminiErrorMsg\<rparr>)"

definition on_close :: "App \<Rightarrow> error option \<times> App" where
  "on_close s = stopCapture s"

text \<open>The transcription connection's \<^verbatim>\<open>error\<close> listener, lines 139-142.\<close>

definition deepgram_on_error :: "App \<Rightarrow> App" where
  "deepgram_on_error s = s\<lparr>errorMsg := Some transcriptionErrorMsg\<rparr>"

section \<open>The audio block handler, lines 204-212\<close>

text \<open>
  \<open>createAudioBlob\<close> of \<^verbatim>\<open>./utils\<close> is a parameter, and \<open>session\<close> is the session the
  promise of line 145 resolved with, which the closure holds. A block is the list of its
  samples.
\<close>

definition onaudioprocess :: "(real list \<Rightarrow> Media) \<Rightarrow> nat \<Rightarrow> real list \<Rightarrow> App \<Rightarrow> App" where
  "onaudioprocess createAudioBlob session inputData s =
     (let s1 = s\<lparr>agentSent := agentSent s @ [(session, createAudioBlob inputData)]\<rparr>
      in case deepgramConnectionRef s1 of
           None \<Rightarrow> s1
         | Some c \<Rightarrow>
             if readyState s1 c = 1
             then s1\<lparr>deepgramSent := deepgramSent s1 @ [(c, inputData)]\<rparr>
             else s1)"

section \<open>The frame sampler, lines 216-233\<close>

text \<open>
  One tick in two halves. \<open>frame_tick_begin\<close> is the synchronous part (lines 217-224): it
  tells whether the tick goes on to encode a frame, given whether the canvas has a
  drawing context and the video's decoded width. \<open>frame_tick_encoded\<close> is the callback of
  \<^verbatim>\<open>toBlob\<close> (lines 225-230), run when the encoding is over with the blob (\<open>None\<close> for
  \<^verbatim>\<open>null\<close>) already turned to base64: it awaits \<^verbatim>\<open>sessionPromiseRef.current\<close> as it is
  then and calls \<^verbatim>\<open>sendRealtimeInput\<close> on the result.
\<close>

definition frame_tick_begin :: "bool \<Rightarrow> nat \<Rightarrow> App \<Rightarrow> bool" where
  "frame_tick_begin ctx videoWidth s =
     (if sessionPromiseRef s = None then False else ctx \<and> videoWidth > 0)"

definition frame_tick_encoded :: "string option \<Rightarrow> App \<Rightarrow> error option \<times> App" where
  "frame_tick_encoded blob s =
     (case blob of
        None \<Rightarrow> (None, s)
      | Some base64Data \<Rightarrow>
          (case sessionPromiseRef s of
             None \<Rightarrow> (Some (TypeError ''Cannot read properties of null''), s)
           | Some (Inl err) \<Rightarrow> (Some err, s)
           | Some (Inr session) \<Rightarrow>
               (None, s\<lparr>agentSent := agentSent s @
                          [(session, \<lparr>data = base64Data, mimeType = ''image/jpeg''\<rparr>)]\<rparr>)))"

text \<open>A tick whose encoding ends before anything else happens.\<close>

definition frame_tick :: "bool \<Rightarrow> nat \<Rightarrow> string option \<Rightarrow> App \<Rightarrow> error option \<times> App" where
  "frame_tick ctx videoWidth blob s =
     (if frame_tick_begin ctx videoWidth s then frame_tick_encoded blob s else (None, s))"

section \<open>Concrete inputs\<close>

text \<open>
  Environments used as concrete inputs: one in which the browser grants the screen
  (track 1) and the microphone (track 2), the transcription connection is 10, the agent
  session 20 and the frame timer 7; one in which the microphone is refused after the
  screen was granted; and one in which the agent connection fails after both were
  granted.
\<close>

definition grantedEnv :: StartEnv where
  "grantedEnv =
     \<lparr> DEEPGRAM_API_KEY = Some ''key'', getDisplayMedia = Inr [1],
       getUserMediaVideo = Inr [1], getUserMediaAudio = Inr [2], listenLive = 10,
       connect = Inr 20, setInterval = 7 \<rparr>"

definition micDeniedEnv :: StartEnv where
  "micDeniedEnv =
     grantedEnv\<lparr>getUserMediaAudio := Inl (DOMException ''NotAllowedError'' ''Permission denied'')\<rparr>"

definition connectFailedEnv :: StartEnv where
  "connectFailedEnv = grantedEnv\<lparr>connect := Inl (Error ''connect failed'')\<rparr>"

text \<open>
  Server messages used as concrete inputs: one audio chunk, an interruption, and an
  interruption whose \<^verbatim>\<open>modelTurn\<close> has no \<^verbatim>\<open>parts\<close>.
\<close>

definition chunkMsg :: LiveServerMessage where
  "chunkMsg =
     \<lparr> modelTurn = Some (Parts [Some ''AAAA'']), outputTranscription = None,
       interrupted = False \<rparr>"

definition interruptedMsg :: LiveServerMessage where
  "interruptedMsg = \<lparr> modelTurn = None, outputTranscription = None, interrupted = True \<rparr>"

definition noPartsInterruptedMsg :: LiveServerMessage where
  "noPartsInterruptedMsg =
     \<lparr> modelTurn = Some NoParts, outputTranscription = None, interrupted = True \<rparr>"

text \<open>The state a granted start leaves, from the initial state.\<close>

definition activeApp :: App where
  "activeApp = snd (startAnalysis grantedEnv initialApp)"

section \<open>Auxiliary notions\<close>

text \<open>
  The tracks of an optional stream, the timer line 55 clears for a given content of
  \<^verbatim>\<open>captureIntervalRef\<close>, and the ready states lines 62-66 leave for a given content of
  \<^verbatim>\<open>sessionRef\<close>.
\<close>

definition tracksOf :: "MediaStream option \<Rightarrow> nat set" where
  "tracksOf stream = (case stream of None \<Rightarrow> {} | Some ts \<Rightarrow> set ts)"

definition timerOf :: "nat option \<Rightarrow> nat set" where
  "timerOf r = (case r of None \<Rightarrow> {} | Some t \<Rightarrow> if t = 0 then {} else {t})"

definition closedState :: "nat option \<Rightarrow> nat set \<Rightarrow> (nat \<Rightarrow> nat) \<Rightarrow> nat \<Rightarrow> nat" where
  "closedState r bad rs =
     (case r of None \<Rightarrow> rs | Some c \<Rightarrow> if c \<in> bad then rs else rs(c := CLOSED))"

section \<open>Properties of the message log\<close>

lemma length_slice_last: "length (slice_last k xs) \<le> k"
  by (simp add: slice_last_def)

lemma slice_last_short: "length xs \<le> k \<Longrightarrow> slice_last k xs = xs"
  by (simp add: slice_last_def)

lemma slice_last_idem: "slice_last k (slice_last k xs) = slice_last k xs"
  by (simp add: slice_last_short length_slice_last)

lemma slice_last_slice_last: "j \<le> k \<Longrightarrow> slice_last j (slice_last k xs) = slice_last j xs"
  by (auto simp add: slice_last_def intro: arg_cong2 [where f = drop])

lemma slice_last_snoc: "0 < k \<Longrightarrow> slice_last k (xs @ [x]) = slice_last (k - 1) xs @ [x]"
  by (simp add: slice_last_def)

lemma last_slice_last: "0 < k \<Longrightarrow> xs \<noteq> [] \<Longrightarrow> last (slice_last k xs) = last xs"
  by (simp add: slice_last_def)

lemma update_last: "prev \<noteq> [] \<Longrightarrow> prev[length prev - Suc 0 := x] = butlast prev @ [x]"
  by (induction prev rule: rev_induct) simp_all

lemma addMessage_empty: "addMessage r [] now prev = prev"
  by (simp add: addMessage_def)

lemma addMessage_length: "length prev \<le> 5 \<Longrightarrow> length (addMessage r t now prev) \<le> 5"
  by (simp add: addMessage_def length_slice_last)

lemma addMessages_length: "length prev \<le> 5 \<Longrightarrow> length (addMessages ops prev) \<le> 5"
  by (induction ops prev rule: addMessages.induct) (simp_all add: addMessage_length)

lemma addMessage_merge:
  "t \<noteq> [] \<Longrightarrow> prev \<noteq> [] \<Longrightarrow> role (last prev) = Assistant \<Longrightarrow>
   addMessage Assistant t now prev =
     slice_last 5 (butlast prev @ [(last prev)\<lparr>msg_text := msg_text (last prev) @ t\<rparr>])"
  by (simp add: addMessage_def update_last)

lemma addMessage_new:
  "t \<noteq> [] \<Longrightarrow> \<not> (r = Assistant \<and> prev \<noteq> [] \<and> role (last prev) = Assistant) \<Longrightarrow>
   addMessage r t now prev =
     slice_last 5 (prev @ [\<lparr>role = r, msg_text = t, timestamp = now\<rparr>])"
  by (auto simp add: addMessage_def)

lemma addMessage_merge_snoc:
  "t \<noteq> [] \<Longrightarrow> prev \<noteq> [] \<Longrightarrow> role (last prev) = Assistant \<Longrightarrow>
   addMessage Assistant t now prev =
     slice_last 4 (butlast prev) @ [(last prev)\<lparr>msg_text := msg_text (last prev) @ t\<rparr>]"
  by (simp add: addMessage_merge slice_last_snoc)

lemma addMessage_new_snoc:
  "t \<noteq> [] \<Longrightarrow> \<not> (r = Assistant \<and> prev \<noteq> [] \<and> role (last prev) = Assistant) \<Longrightarrow>
   addMessage r t now prev =
     slice_last 4 prev @ [\<lparr>role = r, msg_text = t, timestamp = now\<rparr>]"
  by (simp add: addMessage_new slice_last_snoc)

text \<open>Two assistant appends in a row are one append of the two texts joined.\<close>

lemma addMessage_assistant_twice:
  assumes "t1 \<noteq> []"
  shows "addMessage Assistant t2 n2 (addMessage Assistant t1 n1 prev) =
     addMessage Assistant (t1 @ t2) n1 prev"
proof (cases "t2 = []")
  case True
  then show ?thesis by (simp add: addMessage_empty)
next
  case t2: False
  show ?thesis
  proof (cases "prev \<noteq> [] \<and> role (last prev) = Assistant")
    case True
    with assms t2 show ?thesis
      by (simp add: addMessage_merge_snoc slice_last_idem)
  next
    case False
    with assms t2 show ?thesis
      by (simp add: addMessage_new_snoc addMessage_merge_snoc slice_last_idem)
  qed
qed

lemma addMessage_twice_length:
  assumes "t \<noteq> []"
  shows "length (addMessage Assistant t' n' (addMessage Assistant t now prev)) =
         length (addMessage Assistant t now prev)"
proof (cases "t' = []")
  case True
  then show ?thesis by (simp add: addMessage_empty)
next
  case False
  have "length (addMessage Assistant (t @ t') now prev) =
        length (addMessage Assistant t now prev)"
    using assms
    by (cases "prev \<noteq> [] \<and> role (last prev) = Assistant")
       (simp_all add: addMessage_merge_snoc addMessage_new_snoc)
  then show ?thesis
    using assms by (simp add: addMessage_assistant_twice)
qed

lemma addMessage_user_breaks:
  assumes "t1 \<noteq> []" "u \<noteq> []" "t2 \<noteq> []"
  shows "addMessage Assistant t2 n3 (addMessage User u n2 (addMessage Assistant t1 n1 prev)) =
     slice_last 3 (addMessage Assistant t1 n1 prev) @
       [\<lparr>role = User, msg_text = u, timestamp = n2\<rparr>,
        \<lparr>role = Assistant, msg_text = t2, timestamp = n3\<rparr>]"
  using assms
  apply (simp add: addMessage_new_snoc [of u User])
  apply (simp add: addMessage_new_snoc [of t2 Assistant] slice_last_snoc slice_last_slice_last)
  done

lemma addMessage_full_user:
  "t \<noteq> [] \<Longrightarrow> length prev = 5 \<Longrightarrow>
   addMessage User t now prev = tl prev @ [\<lparr>role = User, msg_text = t, timestamp = now\<rparr>]"
  by (cases prev) (simp_all add: addMessage_new slice_last_def)

text \<open>
  C3. A transcript event with empty text leaves the state as it is. One with non-empty
  text overwrites the interim buffer whatever it held (the result does not depend on the
  old buffer). The log gets a new user entry, as its last one, and the buffer is cleared
  exactly when both \<open>is_final\<close> and \<open>speech_final\<close> hold; otherwise the log is unchanged
  and the buffer holds the text. In particular a final but not speech-final event
  commits nothing.
\<close>

theorem transcript_commit_gate:
  "on_transcript [] f sf now s = s \<and>
   (t \<noteq> [] \<longrightarrow>
      on_transcript t f sf now (s\<lparr>userTranscript := old\<rparr>) = on_transcript t f sf now s \<and>
      userTranscript (on_transcript t f sf now s) = (if f \<and> sf then [] else t) \<and>
      (userTranscript (on_transcript t f sf now s) = []) = (f \<and> sf) \<and>
      messages (on_transcript t f sf now s) =
        (if f \<and> sf
         then slice_last 5 (messages s @ [\<lparr>role = User, msg_text = t, timestamp = now\<rparr>])
         else messages s) \<and>
      (f \<and> sf \<longrightarrow>
         last (messages (on_transcript t f sf now s)) =
           \<lparr>role = User, msg_text = t, timestamp = now\<rparr>) \<and>
      messages (on_transcript t True False now s) = messages s)"
  by (simp add: on_transcript_def Let_def addMessage_new last_slice_last)

theorem transcript_commit_gate_witness:
  "messages (on_transcript ''oportunidade de compra'' True True 3
      (on_transcript ''oportunidade de compra'' True False 2
        (on_transcript ''oportun'' False False 1 initialApp))) =
     [\<lparr>role = User, msg_text = ''oportunidade de compra'', timestamp = 3\<rparr>] \<and>
   userTranscript (on_transcript ''oportunidade de compra'' True False 2
        (on_transcript ''oportun'' False False 1 initialApp)) = ''oportunidade de compra'' \<and>
   on_transcript [] True True 4 initialApp = initialApp"
  using transcript_commit_gate [where f = True and sf = True and now = 3 and
          s = "on_transcript ''oportunidade de compra'' True False 2
             (on_transcript ''oportun'' False False 1 initialApp)" and
          t = "''oportunidade de compra''"]
        transcript_commit_gate [where f = True and sf = False and now = 2 and
          s = "on_transcript ''oportun'' False False 1 initialApp" and
          t = "''oportunidade de compra''"]
        transcript_commit_gate [where f = False and sf = False and now = 1 and
          s = initialApp and t = "''oportun''"]
  by (simp add: initialApp_def slice_last_def on_transcript_def addMessage_def)

text \<open>
  C4, as stated, fails on an append with empty text: the role is assistant, the last
  stored entry is a user entry, and no entry is appended (line 42 returns first).
\<close>

theorem addMessage_empty_text_counterexample:
  "addMessage Assistant [] 1 [\<lparr>role = User, msg_text = ''oi'', timestamp = 0\<rparr>] =
     [\<lparr>role = User, msg_text = ''oi'', timestamp = 0\<rparr>]"
  by (simp add: addMessage_def)

text \<open>
  C4, amended. An append with empty text leaves the log unchanged. For every append with
  non-empty text: if its role is assistant and the last stored entry is an assistant
  entry, the text is concatenated into that entry in place (it keeps its timestamp);
  otherwise a new entry is appended; either way the last five entries are kept. Hence two
  assistant appends in a row are the append of the joined text and add no entry, and
  after an assistant, a user and an assistant append the log ends with the user entry
  followed by a new assistant entry holding the last text alone.
\<close>

theorem addMessage_merge_or_append:
  "addMessage r [] now prev = prev \<and>
   (t \<noteq> [] \<longrightarrow>
      (r = Assistant \<and> prev \<noteq> [] \<and> role (last prev) = Assistant \<longrightarrow>
         addMessage r t now prev =
           slice_last 5
             (butlast prev @ [(last prev)\<lparr>msg_text := msg_text (last prev) @ t\<rparr>])) \<and>
      (\<not> (r = Assistant \<and> prev \<noteq> [] \<and> role (last prev) = Assistant) \<longrightarrow>
         addMessage r t now prev =
           slice_last 5 (prev @ [\<lparr>role = r, msg_text = t, timestamp = now\<rparr>])) \<and>
      addMessage Assistant t' n' (addMessage Assistant t now prev) =
        addMessage Assistant (t @ t') now prev \<and>
      length (addMessage Assistant t' n' (addMessage Assistant t now prev)) =
        length (addMessage Assistant t now prev) \<and>
      (u \<noteq> [] \<and> t' \<noteq> [] \<longrightarrow>
         addMessage Assistant t' n' (addMessage User u m (addMessage Assistant t now prev)) =
           slice_last 3 (addMessage Assistant t now prev) @
             [\<lparr>role = User, msg_text = u, timestamp = m\<rparr>,
              \<lparr>role = Assistant, msg_text = t', timestamp = n'\<rparr>]))"
  using addMessage_merge [of t prev now] addMessage_new [of t r prev now]
        addMessage_assistant_twice [of t t' n' now prev]
        addMessage_twice_length [of t t' n' now prev]
        addMessage_user_breaks [of t u t' n' m now prev]
  by (simp add: addMessage_empty)

theorem addMessage_merge_or_append_witness:
  "addMessage Assistant ''b'' 2 (addMessage Assistant ''a'' 1 []) =
     [\<lparr>role = Assistant, msg_text = ''ab'', timestamp = 1\<rparr>] \<and>
   addMessage Assistant ''b'' 3 (addMessage User ''u'' 2 (addMessage Assistant ''a'' 1 [])) =
     [\<lparr>role = Assistant, msg_text = ''a'', timestamp = 1\<rparr>,
      \<lparr>role = User, msg_text = ''u'', timestamp = 2\<rparr>,
      \<lparr>role = Assistant, msg_text = ''b'', timestamp = 3\<rparr>]"
  using addMessage_merge_or_append [where r = Assistant and now = 1 and prev = "[]" and
          t = "''a''" and t' = "''b''" and n' = 2 and u = "''u''" and m = 2]
        addMessage_merge_or_append [where r = Assistant and now = 1 and prev = "[]" and
          t = "''a''" and t' = "''b''" and n' = 3 and u = "''u''" and m = 2]
  by (simp add: slice_last_def addMessage_def)

text \<open>The truncated log is the last five entries of the log with no truncation.\<close>

lemma butlast_slice_last: "butlast (slice_last (Suc k) xs) = slice_last k (butlast xs)"
  by (cases "xs = []") (auto simp add: slice_last_def butlast_drop intro: arg_cong2 [where f = drop])

lemma slice_last_Nil: "0 < k \<Longrightarrow> (slice_last k xs = []) = (xs = [])"
  by (cases xs) (auto simp add: slice_last_def)

lemma addMessage_slice_last:
  "addMessage r t now (slice_last 5 u) = slice_last 5 (untruncated_addMessage r t now u)"
proof (cases "t = []")
  case True
  then show ?thesis by (simp add: addMessage_def untruncated_addMessage_def)
next
  case t: False
  have five: "slice_last 5 u = slice_last (Suc 4) u" by simp
  show ?thesis
  proof (cases "u \<noteq> [] \<and> role (last u) = r \<and> r = Assistant")
    case True
    with t have "addMessage r t now (slice_last 5 u) =
        slice_last 4 (butlast (slice_last 5 u)) @ [(last u)\<lparr>msg_text := msg_text (last u) @ t\<rparr>]"
      by (simp add: addMessage_merge_snoc slice_last_Nil last_slice_last)
    also have "butlast (slice_last 5 u) = slice_last 4 (butlast u)"
      unfolding five by (rule butlast_slice_last)
    finally show ?thesis
      using True t by (simp add: untruncated_addMessage_def slice_last_snoc slice_last_idem)
  next
    case False
    then have "\<not> (r = Assistant \<and> slice_last 5 u \<noteq> [] \<and>
        role (last (slice_last 5 u)) = Assistant)"
      by (cases "u = []") (auto simp add: slice_last_Nil last_slice_last)
    with t have "addMessage r t now (slice_last 5 u) =
        slice_last 4 (slice_last 5 u) @ [\<lparr>role = r, msg_text = t, timestamp = now\<rparr>]"
      by (rule addMessage_new_snoc)
    with False t show ?thesis
      by (auto simp add: untruncated_addMessage_def slice_last_snoc slice_last_slice_last)
  qed
qed

lemma addMessages_slice_last:
  "addMessages ops (slice_last 5 u) = slice_last 5 (untruncated_addMessages ops u)"
  by (induction ops u rule: untruncated_addMessages.induct)
     (simp_all add: addMessage_slice_last)

lemma addMessages_retains_last:
  "addMessages ops [] =
     drop (length (untruncated_addMessages ops []) - 5) (untruncated_addMessages ops [])"
  using addMessages_slice_last [of ops "[]"] by (simp add: slice_last_def)

lemma addMessage_new_drop:
  "t \<noteq> [] \<Longrightarrow> \<not> (r = Assistant \<and> prev \<noteq> [] \<and> role (last prev) = Assistant) \<Longrightarrow>
   addMessage r t now prev =
     drop (length prev - 4) prev @ [\<lparr>role = r, msg_text = t, timestamp = now\<rparr>]"
  by (simp add: addMessage_new_snoc slice_last_def)

lemma addMessage_merge_drop:
  "t \<noteq> [] \<Longrightarrow> prev \<noteq> [] \<Longrightarrow> role (last prev) = Assistant \<Longrightarrow>
   addMessage Assistant t now prev =
     drop (length prev - 5) (butlast prev) @
       [(last prev)\<lparr>msg_text := msg_text (last prev) @ t\<rparr>]"
  by (simp add: addMessage_merge_snoc slice_last_def)

text \<open>
  C5. Starting from the empty log, after any run of appends of any roles, and after each
  of its prefixes, the log holds at most 5 entries, and they are the last 5 entries of
  the log the same appends build with no truncation. One append with non-empty text
  leaves at most 5 entries whatever the log held: when it adds an entry, of either role,
  the last four stored entries are kept before the new one; when it merges into the last
  entry, the four entries before that one are kept before the merged one. In particular
  a user append to a log of 5 drops the oldest entry.
\<close>

theorem message_log_bounded:
  "length (addMessages ops []) \<le> 5 \<and>
   (\<forall>k. length (addMessages (take k ops) []) \<le> 5) \<and>
   (t \<noteq> [] \<longrightarrow> length (addMessage r t now prev) \<le> 5) \<and>
   (t \<noteq> [] \<and> length prev = 5 \<longrightarrow>
      addMessage User t now prev =
        tl prev @ [\<lparr>role = User, msg_text = t, timestamp = now\<rparr>]) \<and>
   addMessages ops [] =
     drop (length (untruncated_addMessages ops []) - 5) (untruncated_addMessages ops []) \<and>
   (t \<noteq> [] \<and> \<not> (r = Assistant \<and> prev \<noteq> [] \<and> role (last prev) = Assistant) \<longrightarrow>
      addMessage r t now prev =
        drop (length prev - 4) prev @ [\<lparr>role = r, msg_text = t, timestamp = now\<rparr>]) \<and>
   (t \<noteq> [] \<and> prev \<noteq> [] \<and> role (last prev) = Assistant \<longrightarrow>
      addMessage Assistant t now prev =
        drop (length prev - 5) (butlast prev) @
          [(last prev)\<lparr>msg_text := msg_text (last prev) @ t\<rparr>])"
proof (intro conjI allI impI)
  show "length (addMessages ops []) \<le> 5"
    by (simp add: addMessages_length)
  show "length (addMessages (take k ops) []) \<le> 5" for k
    by (simp add: addMessages_length)
  show "length (addMessage r t now prev) \<le> 5" if "t \<noteq> []"
    using that by (simp add: addMessage_def length_slice_last)
  show "addMessage User t now prev =
      tl prev @ [\<lparr>role = User, msg_text = t, timestamp = now\<rparr>]"
    if "t \<noteq> [] \<and> length prev = 5"
    using that by (simp add: addMessage_full_user)
  show "addMessages ops [] =
     drop (length (untruncated_addMessages ops []) - 5) (untruncated_addMessages ops [])"
    by (rule addMessages_retains_last)
  show "addMessage r t now prev =
        drop (length prev - 4) prev @ [\<lparr>role = r, msg_text = t, timestamp = now\<rparr>]"
    if "t \<noteq> [] \<and> \<not> (r = Assistant \<and> prev \<noteq> [] \<and> role (last prev) = Assistant)"
    using that by (simp add: addMessage_new_drop)
  show "addMessage Assistant t now prev =
        drop (length prev - 5) (butlast prev) @
          [(last prev)\<lparr>msg_text := msg_text (last prev) @ t\<rparr>]"
    if "t \<noteq> [] \<and> prev \<noteq> [] \<and> role (last prev) = Assistant"
    using that by (simp add: addMessage_merge_drop)
qed

theorem message_log_bounded_witness:
  "addMessages [(User, ''a'', 1), (Assistant, ''b'', 2), (User, ''c'', 3),
      (Assistant, ''d'', 4), (User, ''e'', 5), (Assistant, ''f'', 6), (Assistant, ''g'', 7)] [] =
     [\<lparr>role = Assistant, msg_text = ''b'', timestamp = 2\<rparr>,
      \<lparr>role = User, msg_text = ''c'', timestamp = 3\<rparr>,
      \<lparr>role = Assistant, msg_text = ''d'', timestamp = 4\<rparr>,
      \<lparr>role = User, msg_text = ''e'', timestamp = 5\<rparr>,
      \<lparr>role = Assistant, msg_text = ''fg'', timestamp = 6\<rparr>] \<and>
   length (addMessages [(User, ''a'', 1), (Assistant, ''b'', 2), (User, ''c'', 3),
      (Assistant, ''d'', 4), (User, ''e'', 5), (Assistant, ''f'', 6), (Assistant, ''g'', 7)] [])
     \<le> 5 \<and>
   addMessage Assistant ''z'' 9
      (replicate 8 \<lparr>role = User, msg_text = ''y'', timestamp = 0\<rparr>) =
     replicate 4 \<lparr>role = User, msg_text = ''y'', timestamp = 0\<rparr> @
       [\<lparr>role = Assistant, msg_text = ''z'', timestamp = 9\<rparr>]"
  using message_log_bounded [where ops = "[(User, ''a'', 1), (Assistant, ''b'', 2),
      (User, ''c'', 3), (Assistant, ''d'', 4), (User, ''e'', 5), (Assistant, ''f'', 6),
      (Assistant, ''g'', 7)]" and t = "''z''" and r = Assistant and now = 9 and
      prev = "replicate 8 \<lparr>role = User, msg_text = ''y'', timestamp = 0\<rparr>"]
  by (simp add: untruncated_addMessage_def)

section \<open>Properties of the playback scheduler\<close>

lemma enqueue_fields:
  "scheduled (enqueue c d s) =
     scheduled s @ [\<lparr>seg_source = nextSource s, seg_start = max (nextStartTimeRef s) c,
                     seg_duration = d\<rparr>]"
  "nextStartTimeRef (enqueue c d s) = max (nextStartTimeRef s) c + d"
  "nextSource (enqueue c d s) = Suc (nextSource s)"
  by (simp_all add: enqueue_def enqueue_begin_def enqueue_commit_def)

lemma scheduled_enqueues:
  "scheduled (enqueues cs s) = scheduled s @ plan (nextStartTimeRef s) (nextSource s) cs"
  by (induction cs s rule: enqueues.induct) (simp_all add: enqueue_fields)

lemma new_segments_plan: "new_segments cs s = plan (nextStartTimeRef s) (nextSource s) cs"
  by (simp add: new_segments_def scheduled_enqueues)





lemma fold_try_stop: "fold try_stop_source hs p = p - set hs"
  by (induction hs arbitrary: p) (auto simp add: try_stop_source_def stop_source_def)

lemma purge_fields:
  "sourcesRef (purge s) = []" "nextStartTimeRef (purge s) = 0" "\<not> isSpeaking (purge s)"
  "playing (purge s) = playing s - set (sourcesRef s)"
  "scheduled (purge s) = scheduled s" "nextSource (purge s) = nextSource s"
  by (simp_all add: purge_def fold_try_stop)

lemma plan_ge_clock: "i < length cs \<Longrightarrow> fst (cs ! i) \<le> seg_start (plan ns h cs ! i)"
proof (induction ns h cs arbitrary: i rule: plan.induct)
  case (1 ns h)
  then show ?case by simp
next
  case (2 ns h c d rest)
  then show ?case by (cases i) simp_all
qed




text \<open>The state after a granted start, field by field.\<close>

lemma activeApp_eq:
  "activeApp =
     initialApp\<lparr>status := CONNECTED, isCapturing := True, videoSrcObject := Some [1],
       sessionRef := Some 20, sessionPromiseRef := Some (Inr 20),
       deepgramConnectionRef := Some 10, inputAudioContextRef := True,
       outputAudioContextRef := True, micStreamRef := Some [2],
       captureIntervalRef := Some 7, liveTracks := {1, 2}, activeTimers := {7},
       readyState := (\<lambda>c. CLOSED)(10 := CONNECTING_STATE, 20 := OPEN)\<rparr>"
  by (simp add: activeApp_def startAnalysis_def startAnalysis_try_def grantedEnv_def
        initialApp_def on_open_def Let_def insert_commute)

text \<open>
  A chunk whose decoding is still under way when the interrupted branch runs is started,
  once decoded, at the clock that branch has reset: \<open>enqueue\<close> does not cover it.
\<close>

lemma purge_during_decode:
  "seg_start (last (scheduled (enqueue_commit d (purge (enqueue_begin c s))))) = 0"
  by (simp add: enqueue_commit_def purge_def enqueue_begin_def)

text \<open>An enqueue begun after the interrupted branch is not scheduled before its clock.\<close>

lemma enqueue_after_purge:
  "seg_start (last (scheduled (enqueue c d (purge s)))) = max 0 c"
  "i < length cs \<Longrightarrow> fst (cs ! i) \<le> seg_start (new_segments cs (purge s) ! i)"
  by (simp_all add: purge_fields enqueue_fields new_segments_plan plan_ge_clock)

lemma on_message_begin_interrupted:
  "on_message_begin c now interruptedMsg s = (Finished, purge s)"
  by (simp add: on_message_begin_def base64Audio_def on_message_tail_def interruptedMsg_def)

lemma on_message_begin_noParts:
  "on_message_begin c now noPartsInterruptedMsg s =
     (Threw (TypeError ''Cannot read properties of undefined''), s)"
  by (simp add: on_message_begin_def base64Audio_def noPartsInterruptedMsg_def)

lemma on_message_begin_chunk:
  "outputAudioContextRef s \<Longrightarrow>
   on_message_begin c now chunkMsg s = (AwaitingDecode ''AAAA'', enqueue_begin c s)"
  by (simp add: on_message_begin_def base64Audio_def chunkMsg_def)

lemma on_message_resume_chunk:
  "on_message_resume (Inr d) now chunkMsg s = (None, enqueue_commit d s)"
  by (simp add: on_message_resume_def on_message_tail_def chunkMsg_def)

text \<open>
  C2: the first half holds whenever the handler reaches line 178, the second fails at a
  concrete input. \<open>purge\<close> stops every source in the active set, a source that is not
  playing any more being passed over, empties the set, puts the scheduling clock back to
  0 and clears \<open>isSpeaking\<close>; a message that carries only the interrupted flag does
  exactly that. In the state a granted start leaves, a chunk arrives with the clock at 5
  and waits for its decoding at line 164; the interruption is handled meanwhile; the
  decoding then yields a buffer of one second, and line 172 starts it at 0, five seconds
  before the clock. And an interruption whose \<^verbatim>\<open>modelTurn\<close> has no \<^verbatim>\<open>parts\<close> raises at line
  159 and leaves the state, its active sources included, as it was.
\<close>

theorem interrupted_with_chunk_in_flight:
  "sourcesRef (purge s) = [] \<and> nextStartTimeRef (purge s) = 0 \<and> \<not> isSpeaking (purge s) \<and>
   playing (purge s) = playing s - set (sourcesRef s) \<and>
   on_message_begin c now interruptedMsg s = (Finished, purge s) \<and>
   fst (on_message_begin 5 1 chunkMsg activeApp) = AwaitingDecode ''AAAA'' \<and>
   nextStartTimeRef (snd (on_message_begin 5 1 chunkMsg activeApp)) = 5 \<and>
   fst (on_message_resume (Inr 1) 3 chunkMsg
         (snd (on_message_begin 5 2 interruptedMsg
           (snd (on_message_begin 5 1 chunkMsg activeApp))))) = None \<and>
   seg_start (last (scheduled (snd (on_message_resume (Inr 1) 3 chunkMsg
         (snd (on_message_begin 5 2 interruptedMsg
           (snd (on_message_begin 5 1 chunkMsg activeApp)))))))) = 0 \<and>
   on_message_begin c now noPartsInterruptedMsg s =
     (Threw (TypeError ''Cannot read properties of undefined''), s)"
proof -
  have ctx: "outputAudioContextRef activeApp" "nextStartTimeRef activeApp = 0"
    by (simp_all add: activeApp_eq initialApp_def)
  have turn1: "on_message_begin 5 1 chunkMsg activeApp =
      (AwaitingDecode ''AAAA'', enqueue_begin 5 activeApp)"
    using ctx by (simp add: on_message_begin_chunk)
  have clock: "nextStartTimeRef (enqueue_begin 5 activeApp) = 5"
    using ctx by (simp add: enqueue_begin_def)
  show ?thesis
    unfolding turn1 on_message_begin_interrupted on_message_begin_noParts
      on_message_resume_chunk
    by (simp add: purge_fields purge_during_decode clock)
qed

section \<open>Properties of teardown\<close>

text \<open>Each stage of \<open>stopCapture\<close> as one record update.\<close>

lemma stopTracks_tracksOf: "stopTracks stream live = live - tracksOf stream"
  by (simp add: stopTracks_def tracksOf_def split: option.splits)

lemma clearCaptureInterval_eq:
  "clearCaptureInterval s = s\<lparr>activeTimers := activeTimers s - timerOf (captureIntervalRef s)\<rparr>"
  by (simp add: clearCaptureInterval_def timerOf_def split: option.splits)

lemma stopMedia_eq:
  "stopMedia s =
     s\<lparr>liveTracks := liveTracks s - tracksOf (micStreamRef s) - tracksOf (videoSrcObject s),
       videoSrcObject := None\<rparr>"
  by (simp add: stopMedia_def Let_def stopTracks_tracksOf)

lemma closeSession_eq:
  "closeSession s =
     s\<lparr>readyState := closedState (sessionRef s) (faulty s) (readyState s),
       sessionRef := None,
       sessionPromiseRef := (if sessionRef s = None then sessionPromiseRef s else None)\<rparr>"
  by (simp add: closeSession_def close_def closedState_def split: option.splits)

lemma releaseResources_eq:
  "releaseResources s =
     s\<lparr>activeTimers := activeTimers s - timerOf (captureIntervalRef s),
       liveTracks := liveTracks s - tracksOf (micStreamRef s) - tracksOf (videoSrcObject s),
       videoSrcObject := None,
       readyState := closedState (sessionRef s) (faulty s) (readyState s),
       sessionRef := None,
       sessionPromiseRef := (if sessionRef s = None then sessionPromiseRef s else None)\<rparr>"
  by (simp add: releaseResources_def clearCaptureInterval_eq stopMedia_eq closeSession_eq)

lemma tracksOf_None: "tracksOf None = {}"
  by (simp add: tracksOf_def)

lemma closedState_None: "closedState None bad rs = rs"
  by (simp add: closedState_def)

lemma Diff_twice: "(A::'a set) - B - C - B = A - B - C" "(A::'a set) - B - B = A - B"
  by auto

lemma releaseResources_idem: "releaseResources (releaseResources s) = releaseResources s"
  by (simp add: releaseResources_eq tracksOf_None closedState_None Diff_twice)

lemma releaseResources_resetFlags:
  "releaseResources (resetFlags s) = resetFlags (releaseResources s)"
  by (simp add: releaseResources_eq resetFlags_def)

lemma resetFlags_idem: "resetFlags (resetFlags s) = resetFlags s"
  by (simp add: resetFlags_def)

lemma finishDeepgram_eq:
  "finishDeepgram s =
     (case deepgramConnectionRef s of
        None \<Rightarrow> (None, s)
      | Some c \<Rightarrow>
          if c \<in> faulty s then (Some (Error ''finish''), s)
          else (None, s\<lparr>readyState := (readyState s)(c := CLOSING),
                         deepgramConnectionRef := None\<rparr>))"
  by (simp add: finishDeepgram_def finish_def split: option.splits)

lemma releaseResources_keeps:
  "deepgramConnectionRef (releaseResources s) = deepgramConnectionRef s"
  "faulty (releaseResources s) = faulty s"
  by (simp_all add: releaseResources_eq)

lemma stopCapture_cases:
  "deepgramConnectionRef s = None \<Longrightarrow> stopCapture s = (None, resetFlags (releaseResources s))"
  "deepgramConnectionRef s = Some c \<Longrightarrow> c \<in> faulty s \<Longrightarrow>
     stopCapture s = (Some (Error ''finish''), releaseResources s)"
  "deepgramConnectionRef s = Some c \<Longrightarrow> c \<notin> faulty s \<Longrightarrow>
     stopCapture s =
       (None, resetFlags ((releaseResources s)
          \<lparr>readyState := (readyState (releaseResources s))(c := CLOSING),
           deepgramConnectionRef := None\<rparr>))"
  by (simp_all add: stopCapture_def finishDeepgram_eq releaseResources_keeps)

lemma releaseResources_finished:
  "releaseResources ((releaseResources s)
          \<lparr>readyState := (readyState (releaseResources s))(c := CLOSING),
           deepgramConnectionRef := None\<rparr>) =
   (releaseResources s)
          \<lparr>readyState := (readyState (releaseResources s))(c := CLOSING),
           deepgramConnectionRef := None\<rparr>"
  by (simp add: releaseResources_eq tracksOf_None closedState_None Diff_twice)

lemma stopCapture_idem: "stopCapture (snd (stopCapture s)) = stopCapture s"
proof (cases "deepgramConnectionRef s")
  case None
  then have "deepgramConnectionRef (resetFlags (releaseResources s)) = None"
    by (simp add: resetFlags_def releaseResources_keeps)
  from stopCapture_cases(1) [OF this] None show ?thesis
    by (simp add: stopCapture_cases(1) releaseResources_resetFlags releaseResources_idem
          resetFlags_idem)
next
  case (Some c)
  show ?thesis
  proof (cases "c \<in> faulty s")
    case True
    with Some have "deepgramConnectionRef (releaseResources s) = Some c"
        and "c \<in> faulty (releaseResources s)"
      by (simp_all add: releaseResources_keeps)
    from stopCapture_cases(2) [OF this] Some True show ?thesis
      by (simp add: stopCapture_cases(2) releaseResources_idem)
  next
    case False
    let ?x = "(releaseResources s)
          \<lparr>readyState := (readyState (releaseResources s))(c := CLOSING),
           deepgramConnectionRef := None\<rparr>"
    have "deepgramConnectionRef (resetFlags ?x) = None"
      by (simp add: resetFlags_def)
    from stopCapture_cases(1) [OF this] Some False show ?thesis
      by (simp add: stopCapture_cases(3) releaseResources_resetFlags
            releaseResources_finished resetFlags_idem)
  qed
qed

lemma stopCapture_untouched:
  "liveTracks (snd (stopCapture s)) =
     liveTracks s - tracksOf (micStreamRef s) - tracksOf (videoSrcObject s)"
  "activeTimers (snd (stopCapture s)) = activeTimers s - timerOf (captureIntervalRef s)"
  "videoSrcObject (snd (stopCapture s)) = None"
  "sessionRef (snd (stopCapture s)) = None"
  "nextStartTimeRef (snd (stopCapture s)) = nextStartTimeRef s"
  "sourcesRef (snd (stopCapture s)) = sourcesRef s"
  "playing (snd (stopCapture s)) = playing s"
  "scheduled (snd (stopCapture s)) = scheduled s"
  "fst (stopCapture s) \<noteq> Some (Error ''close'')"
  by (simp_all add: stopCapture_def finishDeepgram_eq releaseResources_eq resetFlags_def
        split: option.splits)

lemma stopCapture_session_closed:
  "sessionRef s = Some c \<Longrightarrow> c \<notin> faulty s \<Longrightarrow> deepgramConnectionRef s \<noteq> Some c \<Longrightarrow>
   readyState (snd (stopCapture s)) c = CLOSED"
  by (simp add: stopCapture_def finishDeepgram_eq releaseResources_eq resetFlags_def
        closedState_def split: option.splits)

lemma stopCapture_flags:
  assumes "deepgramConnectionRef s = None \<or> (deepgramConnectionRef s = Some c \<and> c \<notin> faulty s)"
  shows "fst (stopCapture s) = None \<and> deepgramConnectionRef (snd (stopCapture s)) = None \<and>
     (deepgramConnectionRef s = Some c \<longrightarrow> readyState (snd (stopCapture s)) c = CLOSING) \<and>
     userTranscript (snd (stopCapture s)) = [] \<and> \<not> isCapturing (snd (stopCapture s)) \<and>
     \<not> isSpeaking (snd (stopCapture s)) \<and> status (snd (stopCapture s)) = DISCONNECTED"
  using assms
  by (auto simp add: stopCapture_cases resetFlags_def releaseResources_keeps)

lemma timerOf_Some: "t \<noteq> 0 \<Longrightarrow> timerOf (Some t) = {t}"
  by (simp add: timerOf_def)

text \<open>What \<open>stopCapture\<close> does in every state.\<close>

lemma stopCapture_effects:
  "liveTracks (snd (stopCapture s)) =
     liveTracks s - tracksOf (micStreamRef s) - tracksOf (videoSrcObject s) \<and>
   videoSrcObject (snd (stopCapture s)) = None \<and>
   (captureIntervalRef s = Some t \<and> t \<noteq> 0 \<longrightarrow> t \<notin> activeTimers (snd (stopCapture s))) \<and>
   sessionRef (snd (stopCapture s)) = None \<and>
   (sessionRef s = Some c \<and> c \<notin> faulty s \<and> deepgramConnectionRef s \<noteq> Some c \<longrightarrow>
      readyState (snd (stopCapture s)) c = CLOSED) \<and>
   fst (stopCapture s) \<noteq> Some (Error ''close'') \<and>
   (deepgramConnectionRef s = None \<or> (deepgramConnectionRef s = Some d \<and> d \<notin> faulty s) \<longrightarrow>
      fst (stopCapture s) = None \<and> deepgramConnectionRef (snd (stopCapture s)) = None \<and>
      (deepgramConnectionRef s = Some d \<longrightarrow> readyState (snd (stopCapture s)) d = CLOSING) \<and>
      userTranscript (snd (stopCapture s)) = [] \<and> \<not> isCapturing (snd (stopCapture s)) \<and>
      \<not> isSpeaking (snd (stopCapture s)) \<and> status (snd (stopCapture s)) = DISCONNECTED)"
  using stopCapture_flags [of s d] stopCapture_session_closed [of s c]
  by (simp add: stopCapture_untouched timerOf_Some)

text \<open>The state in which \<^verbatim>\<open>startAnalysis\<close> throws when the microphone is refused.\<close>

lemma micDenied_try:
  "startAnalysis_try micDeniedEnv initialApp =
     (Some (DOMException ''NotAllowedError'' ''Permission denied''),
      initialApp\<lparr>status := CONNECTING, inputAudioContextRef := True,
        outputAudioContextRef := True, liveTracks := {1}\<rparr>)"
  by (simp add: startAnalysis_try_def micDeniedEnv_def grantedEnv_def initialApp_def Let_def)

lemma stopCapture_connecting:
  "status (snd (startAnalysis_try micDeniedEnv initialApp)) = CONNECTING"
  "liveTracks (snd (startAnalysis_try micDeniedEnv initialApp)) = {1}"
  "liveTracks (snd (stopCapture (snd (startAnalysis_try micDeniedEnv initialApp)))) = {1}"
  unfolding micDenied_try snd_conv
  by (simp_all add: stopCapture_untouched tracksOf_def initialApp_def)

lemma stopCapture_finish_throws:
  "fst (stopCapture (activeApp\<lparr>faulty := {10}, userTranscript := ''oi''\<rparr>)) =
     Some (Error ''finish'')"
  "isCapturing (snd (stopCapture (activeApp\<lparr>faulty := {10}, userTranscript := ''oi''\<rparr>)))"
  "status (snd (stopCapture (activeApp\<lparr>faulty := {10}, userTranscript := ''oi''\<rparr>))) =
     CONNECTED"
  "userTranscript (snd (stopCapture (activeApp\<lparr>faulty := {10}, userTranscript := ''oi''\<rparr>))) =
     ''oi''"
  "deepgramConnectionRef
     (snd (stopCapture (activeApp\<lparr>faulty := {10}, userTranscript := ''oi''\<rparr>))) = Some 10"
  by (simp_all add: stopCapture_def finishDeepgram_eq releaseResources_eq activeApp_eq
        initialApp_def)

lemma stopCapture_close_throws:
  "fst (stopCapture (activeApp\<lparr>faulty := {20}, userTranscript := ''oi''\<rparr>)) = None"
  "userTranscript (snd (stopCapture (activeApp\<lparr>faulty := {20}, userTranscript := ''oi''\<rparr>))) =
     []"
  "status (snd (stopCapture (activeApp\<lparr>faulty := {20}, userTranscript := ''oi''\<rparr>))) =
     DISCONNECTED"
  by (simp_all add: stopCapture_def finishDeepgram_eq releaseResources_eq resetFlags_def
        activeApp_eq initialApp_def)

lemma stopCapture_scheduler:
  "nextStartTimeRef (snd (stopCapture (enqueue 0 2 activeApp))) = 2"
  "sourcesRef (snd (stopCapture (enqueue 0 2 activeApp))) = [0]"
  "playing (snd (stopCapture (enqueue 0 2 activeApp))) = {0}"
  by (simp_all add: stopCapture_untouched enqueue_def enqueue_begin_def enqueue_commit_def
        activeApp_eq initialApp_def)

text \<open>
  C6: idempotence holds in every state, the rest fails at concrete inputs. A second
  call of \<open>stopCapture\<close> leaves the state, and the outcome, of the first. In the
  connecting state in which the screen has been granted (track 1) and is not yet attached
  to the video element, \<open>stopCapture\<close> leaves track 1 live. In the state a granted start
  leaves, with a transcript in the buffer: when \<^verbatim>\<open>finish()\<close> of the transcription
  connection raises, the call raises and lines 70-76 do not run, so the connection is
  still held, the buffer keeps its text and the session stays connected and capturing;
  when it is \<^verbatim>\<open>close()\<close> of the agent session that raises, nothing escapes and the reset
  is done. And after one enqueued chunk of two seconds, \<open>stopCapture\<close> leaves the
  scheduling clock at 2 and the source in the active set, still playing.
\<close>

theorem stopCapture_leaves_resources:
  "stopCapture (snd (stopCapture s)) = stopCapture s \<and>
   snd (stopCapture (snd (stopCapture s))) = snd (stopCapture s) \<and>
   status (snd (startAnalysis_try micDeniedEnv initialApp)) = CONNECTING \<and>
   liveTracks (snd (startAnalysis_try micDeniedEnv initialApp)) = {1} \<and>
   liveTracks (snd (stopCapture (snd (startAnalysis_try micDeniedEnv initialApp)))) = {1} \<and>
   fst (stopCapture (activeApp\<lparr>faulty := {10}, userTranscript := ''oi''\<rparr>)) =
     Some (Error ''finish'') \<and>
   isCapturing (snd (stopCapture (activeApp\<lparr>faulty := {10}, userTranscript := ''oi''\<rparr>))) \<and>
   status (snd (stopCapture (activeApp\<lparr>faulty := {10}, userTranscript := ''oi''\<rparr>))) =
     CONNECTED \<and>
   userTranscript (snd (stopCapture (activeApp\<lparr>faulty := {10}, userTranscript := ''oi''\<rparr>))) =
     ''oi'' \<and>
   deepgramConnectionRef
     (snd (stopCapture (activeApp\<lparr>faulty := {10}, userTranscript := ''oi''\<rparr>))) = Some 10 \<and>
   fst (stopCapture (activeApp\<lparr>faulty := {20}, userTranscript := ''oi''\<rparr>)) = None \<and>
   userTranscript (snd (stopCapture (activeApp\<lparr>faulty := {20}, userTranscript := ''oi''\<rparr>))) =
     [] \<and>
   nextStartTimeRef (snd (stopCapture (enqueue 0 2 activeApp))) = 2 \<and>
   sourcesRef (snd (stopCapture (enqueue 0 2 activeApp))) = [0] \<and>
   playing (snd (stopCapture (enqueue 0 2 activeApp))) = {0}"
  by (simp add: stopCapture_idem stopCapture_connecting stopCapture_finish_throws
        stopCapture_close_throws stopCapture_scheduler)

section \<open>A start that fails\<close>

lemma micDenied_result:
  "startAnalysis micDeniedEnv initialApp =
     (None, initialApp\<lparr>errorMsg := Some ''Permission denied'', inputAudioContextRef := True,
              outputAudioContextRef := True, liveTracks := {1}\<rparr>)"
  by (simp add: startAnalysis_def startAnalysis_try_def micDeniedEnv_def grantedEnv_def
        initialApp_def Let_def stopCapture_def finishDeepgram_eq releaseResources_eq
        resetFlags_def tracksOf_def timerOf_def closedState_def)

lemma connectFailed_result:
  "startAnalysis connectFailedEnv initialApp =
     (None, initialApp\<lparr>errorMsg := Some ''connect failed'', inputAudioContextRef := True,
              outputAudioContextRef := True, liveTracks := {1}, micStreamRef := Some [2],
              sessionPromiseRef := Some (Inl (Error ''connect failed'')),
              readyState := (\<lambda>c. CLOSED)(10 := CLOSING)\<rparr>)"
  by (simp add: startAnalysis_def startAnalysis_try_def connectFailedEnv_def grantedEnv_def
        initialApp_def Let_def stopCapture_def finishDeepgram_eq releaseResources_eq
        resetFlags_def tracksOf_def timerOf_def closedState_def)

text \<open>
  C7 at two concrete inputs. The screen is granted (track 1) and the microphone is
  refused: the \<^verbatim>\<open>catch\<close> shows the message and calls \<open>stopCapture\<close>, which finds no stream
  on the video element, since \<^verbatim>\<open>mediaStream\<close> is attached only at line 198; track 1 stays
  live, and the status, set to \<open>ERROR\<close> at line 237, is \<open>DISCONNECTED\<close> once line 75 has
  run. The same holds when both streams are granted and the agent connection fails.
\<close>

theorem startAnalysis_failure_leaks_video:
  "fst (startAnalysis micDeniedEnv initialApp) = None \<and>
   errorMsg (snd (startAnalysis micDeniedEnv initialApp)) = Some ''Permission denied'' \<and>
   status (snd (startAnalysis micDeniedEnv initialApp)) = DISCONNECTED \<and>
   liveTracks (snd (startAnalysis micDeniedEnv initialApp)) = {1} \<and>
   videoSrcObject (snd (startAnalysis micDeniedEnv initialApp)) = None \<and>
   status (snd (startAnalysis connectFailedEnv initialApp)) = DISCONNECTED \<and>
   liveTracks (snd (startAnalysis connectFailedEnv initialApp)) = {1}"
  unfolding micDenied_result connectFailed_result
  by (simp add: initialApp_def)

section \<open>An error of the transcription connection\<close>

text \<open>
  C8, as stated, fails: in the state a granted start leaves, the \<^verbatim>\<open>error\<close> listener of
  the transcription connection leaves the session connected and capturing, both tracks
  live, the frame timer running and both connections in place.
\<close>

theorem transcription_error_no_teardown_counterexample:
  "status (deepgram_on_error activeApp) = CONNECTED \<and>
   isCapturing (deepgram_on_error activeApp) \<and>
   liveTracks (deepgram_on_error activeApp) = {1, 2} \<and>
   activeTimers (deepgram_on_error activeApp) = {7} \<and>
   sessionRef (deepgram_on_error activeApp) = Some 20 \<and>
   readyState (deepgram_on_error activeApp) 20 = OPEN \<and>
   deepgramConnectionRef (deepgram_on_error activeApp) = Some 10"
  by (simp add: deepgram_on_error_def activeApp_eq initialApp_def)

text \<open>
  C8, amended. The \<^verbatim>\<open>error\<close> listener of the transcription connection shows a message
  of its own, different from the one the agent session's \<^verbatim>\<open>onerror\<close> shows and from the
  one for a missing key, and changes nothing else: status, tracks, timers and both
  connections stay as they were.
\<close>

theorem transcription_error_message_only:
  "errorMsg (deepgram_on_error s) = Some transcriptionErrorMsg \<and>
   transcriptionErrorMsg \<noteq> geminiErrorMsg \<and>
   transcriptionErrorMsg \<noteq> deepgramKeyMissingMsg \<and>
   errorMsg (snd (on_error s)) = Some geminiErrorMsg \<and>
   (deepgram_on_error s)\<lparr>errorMsg := errorMsg s\<rparr> = s \<and>
   status (deepgram_on_error s) = status s \<and>
   isCapturing (deepgram_on_error s) = isCapturing s \<and>
   liveTracks (deepgram_on_error s) = liveTracks s \<and>
   activeTimers (deepgram_on_error s) = activeTimers s \<and>
   readyState (deepgram_on_error s) = readyState s \<and>
   sessionRef (deepgram_on_error s) = sessionRef s \<and>
   deepgramConnectionRef (deepgram_on_error s) = deepgramConnectionRef s"
  by (simp add: deepgram_on_error_def transcriptionErrorMsg_def geminiErrorMsg_def
        deepgramKeyMissingMsg_def on_error_def stopCapture_def finishDeepgram_eq
        releaseResources_eq resetFlags_def split: option.splits)

section \<open>The frame sampler and the audio blocks\<close>

lemma stopped_activeApp: "sessionPromiseRef (snd (stopCapture activeApp)) = None"
  "agentSent (snd (stopCapture activeApp)) = []"
  by (simp_all add: stopCapture_def finishDeepgram_eq releaseResources_eq resetFlags_def
        activeApp_eq initialApp_def)

text \<open>
  C9: the first half holds for every tick, the second fails at a concrete input. A tick
  on a video of decoded width 0 sends nothing and raises nothing. A tick that began in
  the state a granted start leaves goes on to encode; when \<open>stopCapture\<close> runs before the
  encoding is over, the callback reads \<^verbatim>\<open>null\<close> from \<^verbatim>\<open>sessionPromiseRef\<close> and raises a
  \<^verbatim>\<open>TypeError\<close> at line 229; nothing is sent.
\<close>

theorem frame_after_teardown_raises:
  "frame_tick ctx 0 blob s = (None, s) \<and>
   frame_tick_begin True 1280 activeApp \<and>
   fst (frame_tick_encoded (Some ''/9j/'') (snd (stopCapture activeApp))) =
     Some (TypeError ''Cannot read properties of null'') \<and>
   agentSent (snd (frame_tick_encoded (Some ''/9j/'') (snd (stopCapture activeApp)))) = []"
proof (intro conjI)
  show "frame_tick ctx 0 blob s = (None, s)"
    by (simp add: frame_tick_def frame_tick_begin_def)
  show "frame_tick_begin True 1280 activeApp"
    by (simp add: frame_tick_begin_def activeApp_eq initialApp_def)
  show "fst (frame_tick_encoded (Some ''/9j/'') (snd (stopCapture activeApp))) =
     Some (TypeError ''Cannot read properties of null'')"
    by (simp add: frame_tick_encoded_def stopped_activeApp)
  show "agentSent (snd (frame_tick_encoded (Some ''/9j/'') (snd (stopCapture activeApp)))) = []"
    by (simp add: frame_tick_encoded_def stopped_activeApp)
qed

text \<open>
  C10. Every audio block is handed to the agent session, converted by
  \<^verbatim>\<open>createAudioBlob\<close>, whatever the state; the same block is handed unconverted to the
  transcription connection when that connection is held and its ready state is 1, and
  is not handed to it otherwise; nothing else changes.
\<close>

theorem audio_block_fanout:
  "agentSent (onaudioprocess createAudioBlob session inputData s) =
     agentSent s @ [(session, createAudioBlob inputData)] \<and>
   (deepgramConnectionRef s = Some d \<and> readyState s d = OPEN \<longrightarrow>
      deepgramSent (onaudioprocess createAudioBlob session inputData s) =
        deepgramSent s @ [(d, inputData)]) \<and>
   (deepgramConnectionRef s = None \<or> (deepgramConnectionRef s = Some d \<and> readyState s d \<noteq> OPEN)
      \<longrightarrow> deepgramSent (onaudioprocess createAudioBlob session inputData s) = deepgramSent s) \<and>
   (onaudioprocess createAudioBlob session inputData s)
      \<lparr>agentSent := agentSent s, deepgramSent := deepgramSent s\<rparr> = s"
  by (auto simp add: onaudioprocess_def Let_def OPEN_def split: option.splits)

theorem audio_block_fanout_witness:
  "deepgramSent (onaudioprocess (\<lambda>b. \<lparr>data = ''pcm'', mimeType = ''audio/pcm;rate=16000''\<rparr>) 20
      [0, 1 / 2] (activeApp\<lparr>readyState := (readyState activeApp)(10 := OPEN)\<rparr>)) =
     [(10, [0, 1 / 2])] \<and>
   deepgramSent (onaudioprocess (\<lambda>b. \<lparr>data = ''pcm'', mimeType = ''audio/pcm;rate=16000''\<rparr>) 20
      [0, 1 / 2] activeApp) = [] \<and>
   agentSent (onaudioprocess (\<lambda>b. \<lparr>data = ''pcm'', mimeType = ''audio/pcm;rate=16000''\<rparr>) 20
      [0, 1 / 2] activeApp) = [(20, \<lparr>data = ''pcm'', mimeType = ''audio/pcm;rate=16000''\<rparr>)]"
proof -
  let ?f = "\<lambda>b::real list. \<lparr>data = ''pcm'', mimeType = ''audio/pcm;rate=16000''\<rparr>"
  let ?s = "activeApp\<lparr>readyState := (readyState activeApp)(10 := OPEN)\<rparr>"
  have a: "deepgramConnectionRef ?s = Some 10 \<and> readyState ?s 10 = OPEN"
    by (simp add: activeApp_eq initialApp_def)
  have b: "deepgramConnectionRef activeApp = Some 10 \<and> readyState activeApp 10 \<noteq> OPEN"
    by (simp add: activeApp_eq initialApp_def OPEN_def CONNECTING_STATE_def)
  have c: "deepgramSent ?s = []" "deepgramSent activeApp = []" "agentSent activeApp = []"
    by (simp_all add: activeApp_eq initialApp_def)
  from audio_block_fanout [of ?f 20 "[0, 1 / 2]" ?s 10]
       audio_block_fanout [of ?f 20 "[0, 1 / 2]" activeApp 10] a b c
  show ?thesis by simp
qed


end
